theory Spec2Isabelle
  imports Main "HOL-Library.Multiset"
begin

section \<open>Text: characters and the string primitives of the Python runtime\<close>

text \<open>
  The forwarder (\<^verbatim>\<open>src/bot.py\<close>) works on Python \<^verbatim>\<open>str\<close> values. They are modelled
  as \<^typ>\<open>string\<close>, every \<^typ>\<open>char\<close> standing for the code point of the same number
  (0 to 255, the Latin-1 block of Unicode), so that \<^term>\<open>length\<close> is Python's \<^verbatim>\<open>len\<close>.
  The three predicates below are the classifications that \<^verbatim>\<open>re\<close> and \<^verbatim>\<open>str.lower\<close>
  use on these code points.
\<close>

definition backslash :: char where
  "backslash = CHR 0x5C"

definition is_digit :: "char \<Rightarrow> bool" where
  "is_digit c = (let n = (of_char c :: nat) in 48 \<le> n \<and> n \<le> 57)"

definition is_octdigit :: "char \<Rightarrow> bool" where
  "is_octdigit c = (let n = (of_char c :: nat) in 48 \<le> n \<and> n \<le> 55)"

definition digit_value :: "char \<Rightarrow> nat" where
  "digit_value c = of_char c - 48"

definition is_ascii_letter :: "char \<Rightarrow> bool" where
  "is_ascii_letter c =
     (let n = (of_char c :: nat) in (65 \<le> n \<and> n \<le> 90) \<or> (97 \<le> n \<and> n \<le> 122))"

text \<open>
  \<^verbatim>\<open>\w\<close> of a \<^verbatim>\<open>str\<close> pattern: the alphanumeric code points and the underscore. In
  the Latin-1 block the alphanumerics beyond ASCII are the letters, the ordinal
  indicators, the micro sign, the superscript digits and the vulgar fractions.
\<close>

definition is_word_char :: "char \<Rightarrow> bool" where
  "is_word_char c =
     (let n = (of_char c :: nat) in
        (48 \<le> n \<and> n \<le> 57) \<or> (65 \<le> n \<and> n \<le> 90) \<or> n = 95 \<or> (97 \<le> n \<and> n \<le> 122) \<or>
        n = 170 \<or> n = 178 \<or> n = 179 \<or> n = 181 \<or> n = 185 \<or> n = 186 \<or>
        (188 \<le> n \<and> n \<le> 190) \<or> (192 \<le> n \<and> n \<le> 214) \<or>
        (216 \<le> n \<and> n \<le> 246) \<or> (248 \<le> n \<and> n \<le> 255))"

text \<open>\<^verbatim>\<open>str.lower\<close> on one code point: A-Z and the upper-case Latin-1 letters move up by 32.\<close>

definition lower_char :: "char \<Rightarrow> char" where
  "lower_char c =
     (let n = (of_char c :: nat) in
        if (65 \<le> n \<and> n \<le> 90) \<or> (192 \<le> n \<and> n \<le> 214) \<or> (216 \<le> n \<and> n \<le> 222)
        then char_of (n + 32) else c)"

definition lower :: "string \<Rightarrow> string" where
  "lower s = map lower_char s"

text \<open>\<^verbatim>\<open>s.lstrip('@')\<close>: every leading at-sign goes, not only the first.\<close>

definition lstrip_at :: "string \<Rightarrow> string" where
  "lstrip_at s = dropWhile (\<lambda>c. c = CHR ''@'') s"

text \<open>\<^verbatim>\<open>str(n)\<close> of an integer: decimal digits, a minus sign for a negative number.\<close>

function decimal :: "nat \<Rightarrow> string" where
  "decimal n = (if n < 10 then [char_of (48 + n)] else decimal (n div 10) @ [char_of (48 + n mod 10)])"
  by pat_completeness auto
termination
  by (relation "measure (\<lambda>n. n)") auto

declare decimal.simps [simp del]

definition str_int :: "int \<Rightarrow> string" where
  "str_int i = (if i < 0 then CHR ''-'' # decimal (nat (- i)) else decimal (nat i))"

subsection \<open>str.replace\<close>

text \<open>
  \<^verbatim>\<open>text.replace(old, new)\<close> replaces the non-overlapping occurrences of \<^verbatim>\<open>old\<close>, found
  from the left, and compares code points exactly. With an empty \<^verbatim>\<open>old\<close> Python puts
  \<^verbatim>\<open>new\<close> before every character and at the end.
\<close>

fun strip_prefix :: "string \<Rightarrow> string \<Rightarrow> string option" where
  "strip_prefix [] t = Some t"
| "strip_prefix (a # as) [] = None"
| "strip_prefix (a # as) (c # cs) = (if a = c then strip_prefix as cs else None)"

lemma strip_prefix_length:
  "strip_prefix old t = Some rest \<Longrightarrow> length rest + length old = length t"
  by (induction old t rule: strip_prefix.induct) (auto split: if_splits)

function replace_scan :: "char \<Rightarrow> string \<Rightarrow> string \<Rightarrow> string \<Rightarrow> string" where
  "replace_scan a as new [] = []"
| "replace_scan a as new (c # cs) =
     (case strip_prefix (a # as) (c # cs) of
        Some rest \<Rightarrow> new @ replace_scan a as new rest
      | None \<Rightarrow> c # replace_scan a as new cs)"
  by pat_completeness auto
termination
proof (relation "measure (\<lambda>(a, as, new, t). length t)")
  show "wf (measure (\<lambda>(a, as, new, t). length t))"
    by simp
next
  fix a :: char and as new :: string and c :: char and cs rest :: string
  assume "strip_prefix (a # as) (c # cs) = Some rest"
  then have "length rest + length (a # as) = length (c # cs)"
    by (rule strip_prefix_length)
  then show "((a, as, new, rest), (a, as, new, c # cs)) \<in> measure (\<lambda>(a, as, new, t). length t)"
    by simp
next
  fix a :: char and as new :: string and c :: char and cs :: string
  show "((a, as, new, cs), (a, as, new, c # cs)) \<in> measure (\<lambda>(a, as, new, t). length t)"
    by simp
qed

definition str_replace :: "string \<Rightarrow> string \<Rightarrow> string \<Rightarrow> string" where
  "str_replace old new t =
     (case old of
        [] \<Rightarrow> new @ concat (map (\<lambda>c. c # new) t)
      | a # as \<Rightarrow> replace_scan a as new t)"

subsection \<open>re.sub with a word-bounded, case-insensitive literal pattern\<close>

text \<open>
  The words stage calls
  \<^verbatim>\<open>re.sub(r'\b' + re.escape(old_word) + r'\b', new_word, modified_text, flags=re.IGNORECASE)\<close>.
  The pattern that \<^verbatim>\<open>re.escape\<close> builds matches the characters of \<^verbatim>\<open>old_word\<close> one by
  one and has no group. Under \<^verbatim>\<open>IGNORECASE\<close> a character of the key that has no case
  matches itself only, and a cased one matches the characters of its case class; for
  keys and texts of code points below 256, which is what this theory covers, two
  characters are in one class exactly when their lower-case forms are equal. Beyond
  that block the classes are larger (the combining mark U+0345, not a word character,
  is in one class with the Greek letter iota), and nothing below speaks about such
  keys or texts.
  \<^verbatim>\<open>\b\<close> holds between two positions exactly when one side is a word character and
  the other is not, the outside of the text counting as a non-word character.
\<close>

definition is_word_opt :: "char option \<Rightarrow> bool" where
  "is_word_opt x = (case x of None \<Rightarrow> False | Some c \<Rightarrow> is_word_char c)"

definition word_boundary :: "char option \<Rightarrow> char option \<Rightarrow> bool" where
  "word_boundary l r = (is_word_opt l \<noteq> is_word_opt r)"

definition head_opt :: "string \<Rightarrow> char option" where
  "head_opt t = (case t of [] \<Rightarrow> None | c # _ \<Rightarrow> Some c)"

fun ci_strip_prefix :: "string \<Rightarrow> string \<Rightarrow> string option" where
  "ci_strip_prefix [] t = Some t"
| "ci_strip_prefix (a # as) [] = None"
| "ci_strip_prefix (a # as) (c # cs) =
     (if lower_char a = lower_char c then ci_strip_prefix as cs else None)"

text \<open>
  A match of the pattern that starts at the current position: \<open>prev\<close> is the character
  just before the position (\<open>None\<close> at the start of the text), the result is the matched
  text and what follows it.
\<close>

definition match_at :: "string \<Rightarrow> char option \<Rightarrow> string \<Rightarrow> (string \<times> string) option" where
  "match_at key prev t =
     (if word_boundary prev (head_opt t) then
        (case ci_strip_prefix key t of
           None \<Rightarrow> None
         | Some rest \<Rightarrow>
             (let m = take (length key) t;
                  before_end = (if m = [] then prev else Some (last m))
              in if word_boundary before_end (head_opt rest) then Some (m, rest) else None))
      else None)"

text \<open>
  The replacement argument of \<^verbatim>\<open>re.sub\<close> is a template: \<^verbatim>\<open>re\<close> compiles it before it
  looks for any match, processes the backslash escapes in it, and raises on a malformed
  one. \<open>parse_template\<close> follows \<^verbatim>\<open>parse_template\<close> of the \<^verbatim>\<open>re\<close> parser for a pattern
  without groups: \<^verbatim>\<open>\g<0>\<close> is the whole match, every other group reference is invalid,
  \<^verbatim>\<open>\0\<close> and three octal digits are a character code, \<^verbatim>\<open>\a \b \f \n \r \t \v \\\<close> are
  the control characters and the backslash, a backslash before another ASCII letter or
  at the end is an error, and a backslash before anything else stays with that character.
  All failures are exceptions of class \<^verbatim>\<open>Exception\<close> (\<^verbatim>\<open>re.error\<close>, or \<^verbatim>\<open>IndexError\<close> for
  an unknown group name); the model keeps one value for them.
\<close>

datatype py_exception = TemplateError

datatype tpl_item = Lit char | WholeMatch

definition simple_escape :: "char \<Rightarrow> char option" where
  "simple_escape c =
     (if c = CHR ''a'' then Some (CHR 0x07)
      else if c = CHR ''b'' then Some (CHR 0x08)
      else if c = CHR ''f'' then Some (CHR 0x0C)
      else if c = CHR ''n'' then Some (CHR 0x0A)
      else if c = CHR ''r'' then Some (CHR 0x0D)
      else if c = CHR ''t'' then Some (CHR 0x09)
      else if c = CHR ''v'' then Some (CHR 0x0B)
      else if c = backslash then Some backslash
      else None)"

definition decimal_value :: "string \<Rightarrow> nat" where
  "decimal_value ds = foldl (\<lambda>acc d. 10 * acc + digit_value d) 0 ds"

text \<open>
  \<^verbatim>\<open>int(s)\<close> on a string, as the template parser calls it on a group name: white space
  around the number is dropped, one sign may come first, and the digits may be
  separated by single underscores.
\<close>

definition is_py_space :: "char \<Rightarrow> bool" where
  "is_py_space c =
     (let n = (of_char c :: nat) in (9 \<le> n \<and> n \<le> 13) \<or> (28 \<le> n \<and> n \<le> 32) \<or> n = 133 \<or> n = 160)"

definition strip_spaces :: "string \<Rightarrow> string" where
  "strip_spaces s = rev (dropWhile is_py_space (rev (dropWhile is_py_space s)))"

fun grouped_digits :: "string \<Rightarrow> bool" where
  "grouped_digits [] = False"
| "grouped_digits [c] = is_digit c"
| "grouped_digits (c # d # cs) =
     (is_digit c \<and> (if d = CHR ''_'' then grouped_digits cs else grouped_digits (d # cs)))"

definition py_int :: "string \<Rightarrow> int option" where
  "py_int s =
     (let b = strip_spaces s;
          negative = (case b of [] \<Rightarrow> False | c # cs \<Rightarrow> c = CHR ''-'');
          body = (case b of [] \<Rightarrow> [] | c # cs \<Rightarrow> if c = CHR ''-'' \<or> c = CHR ''+'' then cs else b)
      in if grouped_digits body
         then Some ((if negative then - 1 else 1)
                * int (decimal_value (filter (\<lambda>c. c \<noteq> CHR ''_'') body)))
         else None)"

text \<open>
  After \<^verbatim>\<open>\g\<close>: the name up to the closing bracket. The pattern has no named group, so a
  name that is an identifier raises; any other name is read with \<^verbatim>\<open>int\<close> (an identifier
  is never a number), and only the number 0, the whole match, is a group of the pattern.
  This is the parser up to Python 3.11; from 3.12 on a name that is not made of ASCII
  digits only (a sign, a space, an underscore) raises instead.
\<close>

definition group_reference :: "string \<Rightarrow> py_exception + (tpl_item list \<times> string)" where
  "group_reference cs =
     (case cs of
        [] \<Rightarrow> Inl TemplateError
      | c # r \<Rightarrow>
          if c \<noteq> CHR ''<'' then Inl TemplateError
          else
            (let name = takeWhile (\<lambda>x. x \<noteq> CHR ''>'') r;
                 closing = dropWhile (\<lambda>x. x \<noteq> CHR ''>'') r
             in if closing = [] then Inl TemplateError
                else if name = [] then Inl TemplateError
                else
                  (case py_int name of
                     None \<Rightarrow> Inl TemplateError
                   | Some index \<Rightarrow>
                       if index = 0 then Inr ([WholeMatch], tl closing)
                       else Inl TemplateError)))"

text \<open>After \<^verbatim>\<open>\0\<close>: up to two more octal digits belong to the character code.\<close>

definition octal_zero :: "string \<Rightarrow> tpl_item list \<times> string" where
  "octal_zero cs =
     (case cs of
        [] \<Rightarrow> ([Lit (char_of (0::nat))], [])
      | d1 # r1 \<Rightarrow>
          if is_octdigit d1 then
            (case r1 of
               [] \<Rightarrow> ([Lit (char_of (digit_value d1))], [])
             | d2 # r2 \<Rightarrow>
                 if is_octdigit d2
                 then ([Lit (char_of (8 * digit_value d1 + digit_value d2))], r2)
                 else ([Lit (char_of (digit_value d1))], r1))
          else ([Lit (char_of (0::nat))], cs))"

text \<open>
  After a backslash and a digit 1 to 9: three octal digits are a character code (at most
  0o377); anything else is a reference to a group of that number, which the pattern
  does not have.
\<close>

definition digit_escape :: "char \<Rightarrow> string \<Rightarrow> py_exception + (tpl_item list \<times> string)" where
  "digit_escape c cs =
     (case cs of
        [] \<Rightarrow> Inl TemplateError
      | d2 # r2 \<Rightarrow>
          if is_digit d2 then
            (case r2 of
               [] \<Rightarrow> Inl TemplateError
             | d3 # r3 \<Rightarrow>
                 if is_octdigit c \<and> is_octdigit d2 \<and> is_octdigit d3 then
                   (let v = 64 * digit_value c + 8 * digit_value d2 + digit_value d3
                    in if v > 255 then Inl TemplateError else Inr ([Lit (char_of v)], r3))
                 else Inl TemplateError)
          else Inl TemplateError)"

definition template_escape :: "string \<Rightarrow> py_exception + (tpl_item list \<times> string)" where
  "template_escape t =
     (case t of
        [] \<Rightarrow> Inl TemplateError
      | c # cs \<Rightarrow>
          if c = CHR ''g'' then group_reference cs
          else if c = CHR ''0'' then Inr (octal_zero cs)
          else if is_digit c then digit_escape c cs
          else
            (case simple_escape c of
               Some e \<Rightarrow> Inr ([Lit e], cs)
             | None \<Rightarrow>
                 if is_ascii_letter c then Inl TemplateError
                 else Inr ([Lit backslash, Lit c], cs)))"

lemma tl_dropWhile_length: "length (tl (dropWhile P r)) \<le> length r"
proof -
  have "length (tl (dropWhile P r)) \<le> length (dropWhile P r)"
    by simp
  also have "\<dots> \<le> length r"
    by (rule length_dropWhile_le)
  finally show ?thesis .
qed

lemma group_reference_shorter:
  assumes "group_reference cs = Inr (items, rest)"
  shows "length rest \<le> length cs"
proof (cases cs)
  case Nil
  with assms show ?thesis
    by (simp add: group_reference_def)
next
  case (Cons c r)
  with assms have "rest = tl (dropWhile (\<lambda>x. x \<noteq> CHR ''>'') r)"
    by (simp add: group_reference_def Let_def split: if_splits option.splits)
  then have "length rest \<le> length r"
    by (simp only: tl_dropWhile_length)
  with Cons show ?thesis
    by simp
qed

lemma octal_zero_shorter: "octal_zero cs = (items, rest) \<Longrightarrow> length rest \<le> length cs"
  by (auto simp: octal_zero_def split: list.splits if_splits)

lemma digit_escape_shorter:
  "digit_escape c cs = Inr (items, rest) \<Longrightarrow> length rest \<le> length cs"
  by (auto simp: digit_escape_def Let_def split: list.splits if_splits)

lemma template_escape_shorter:
  "template_escape t = Inr (items, rest) \<Longrightarrow> length rest \<le> length t"
  by (auto simp: template_escape_def le_SucI split: list.splits if_splits option.splits
           dest: group_reference_shorter octal_zero_shorter digit_escape_shorter)

function parse_template :: "string \<Rightarrow> py_exception + tpl_item list" where
  "parse_template [] = Inr []"
| "parse_template (c # cs) =
     (if c = backslash then
        (case template_escape cs of
           Inl e \<Rightarrow> Inl e
         | Inr (items, rest) \<Rightarrow>
             (case parse_template rest of
                Inl e \<Rightarrow> Inl e
              | Inr more \<Rightarrow> Inr (items @ more)))
      else
        (case parse_template cs of
           Inl e \<Rightarrow> Inl e
         | Inr more \<Rightarrow> Inr (Lit c # more)))"
  by pat_completeness auto
termination
proof (relation "measure length")
  show "wf (measure (length :: string \<Rightarrow> nat))"
    by simp
next
  fix c :: char and cs :: string and x :: "tpl_item list \<times> string"
    and items :: "tpl_item list" and rest :: string
  assume "template_escape cs = Inr x" and "(items, rest) = x"
  then have "length rest \<le> length cs"
    using template_escape_shorter [of cs items rest] by simp
  then show "(rest, c # cs) \<in> measure length"
    by simp
next
  fix c :: char and cs :: string
  show "(cs, c # cs) \<in> measure length"
    by simp
qed

fun expand_item :: "string \<Rightarrow> tpl_item \<Rightarrow> string" where
  "expand_item m (Lit c) = [c]"
| "expand_item m WholeMatch = m"

definition expand_template :: "tpl_item list \<Rightarrow> string \<Rightarrow> string" where
  "expand_template tpl m = concat (map (expand_item m) tpl)"

lemma ci_strip_prefix_length:
  "ci_strip_prefix key t = Some rest \<Longrightarrow> length rest + length key = length t"
  by (induction key t rule: ci_strip_prefix.induct) (auto split: if_splits)

lemma match_at_length:
  assumes "match_at key prev t = Some (m, rest)"
  shows "length rest + length key = length t" and "m = take (length key) t"
proof -
  from assms have "ci_strip_prefix key t = Some rest"
    by (auto simp: match_at_def Let_def split: if_splits option.splits)
  then show "length rest + length key = length t"
    by (rule ci_strip_prefix_length)
  from assms show "m = take (length key) t"
    by (auto simp: match_at_def Let_def split: if_splits option.splits)
qed

text \<open>
  The scan of \<^verbatim>\<open>re.sub\<close>: the leftmost match is replaced by the expanded template and
  the search goes on after it; where nothing matches, one character is copied. An empty
  match (only an empty key has them) is followed by the next character, copied.
\<close>

function re_sub_scan :: "string \<Rightarrow> tpl_item list \<Rightarrow> char option \<Rightarrow> string \<Rightarrow> string" where
  "re_sub_scan key tpl prev [] =
     (case match_at key prev [] of
        Some (m, rest) \<Rightarrow> expand_template tpl m
      | None \<Rightarrow> [])"
| "re_sub_scan key tpl prev (c # cs) =
     (case match_at key prev (c # cs) of
        Some (m, rest) \<Rightarrow>
          (if m = [] then expand_template tpl m @ c # re_sub_scan key tpl (Some c) cs
           else expand_template tpl m @ re_sub_scan key tpl (Some (last m)) rest)
      | None \<Rightarrow> c # re_sub_scan key tpl (Some c) cs)"
  by pat_completeness auto

termination
proof (relation "measure (\<lambda>(key, tpl, prev, t). length t)")
  show "wf (measure (\<lambda>(key, tpl, prev, t). length t))"
    by simp
next
  fix key :: string and tpl :: "tpl_item list" and prev :: "char option"
    and c :: char and cs :: string
  show "((key, tpl, Some c, cs), (key, tpl, prev, c # cs))
          \<in> measure (\<lambda>(key, tpl, prev, t). length t)"
    by simp
next
  fix key :: string and tpl :: "tpl_item list" and prev :: "char option"
    and c :: char and cs :: string and x :: "string \<times> string" and m rest :: string
  show "((key, tpl, Some c, cs), (key, tpl, prev, c # cs))
          \<in> measure (\<lambda>(key, tpl, prev, t). length t)"
    by simp
next
  fix key :: string and tpl :: "tpl_item list" and prev :: "char option"
    and c :: char and cs :: string and x :: "string \<times> string" and m rest :: string
  assume found: "match_at key prev (c # cs) = Some x" "(m, rest) = x" and "m \<noteq> []"
  from found have len: "length rest + length key = length (c # cs)"
    and m: "m = take (length key) (c # cs)"
    using match_at_length [of key prev "c # cs" m rest] by simp_all
  from m \<open>m \<noteq> []\<close> have "key \<noteq> []"
    by auto
  with len have "length rest < length (c # cs)"
    by (cases key) auto
  then show "((key, tpl, Some (last m), rest), (key, tpl, prev, c # cs))
               \<in> measure (\<lambda>(key, tpl, prev, t). length t)"
    by simp
qed

definition re_sub :: "string \<Rightarrow> string \<Rightarrow> string \<Rightarrow> py_exception + string" where
  "re_sub key repl t =
     (case parse_template repl of
        Inl e \<Rightarrow> Inl e
      | Inr tpl \<Rightarrow> Inr (re_sub_scan key tpl None t))"

section \<open>The replacement engine\<close>

text \<open>
  \<^verbatim>\<open>self.config.replacements\<close> holds three dictionaries from old to new strings. A
  Python dictionary iterates in insertion order, so each is a list of pairs in that
  order.
\<close>

record ruleset =
  links :: "(string \<times> string) list"
  words :: "(string \<times> string) list"
  sentences :: "(string \<times> string) list"

text \<open>
  \<^verbatim>\<open>sorted(d.items(), key=lambda item: len(item[0]), reverse=True)\<close>: Python's sort is
  stable, also with \<^verbatim>\<open>reverse=True\<close>, so pairs with keys of one length keep their
  dictionary order.
\<close>

definition sorted_items :: "(string \<times> string) list \<Rightarrow> (string \<times> string) list" where
  "sorted_items d = sort_key (\<lambda>item. - int (length (fst item))) d"

fun links_loop :: "(string \<times> string) list \<Rightarrow> string \<Rightarrow> string" where
  "links_loop [] t = t"
| "links_loop ((old_link, new_link) # ps) t = links_loop ps (str_replace old_link new_link t)"

fun words_loop :: "(string \<times> string) list \<Rightarrow> string \<Rightarrow> py_exception + string" where
  "words_loop [] t = Inr t"
| "words_loop ((old_word, new_word) # ps) t =
     (case re_sub old_word new_word t of
        Inl e \<Rightarrow> Inl e
      | Inr t' \<Rightarrow> words_loop ps t')"

fun sentences_loop :: "(string \<times> string) list \<Rightarrow> string \<Rightarrow> string" where
  "sentences_loop [] t = t"
| "sentences_loop ((old_sentence, new_sentence) # ps) t =
     sentences_loop ps (str_replace old_sentence new_sentence t)"

text \<open>The body of the \<^verbatim>\<open>try\<close> block: the three loops, the first exception ending it.\<close>

definition try_stages :: "ruleset \<Rightarrow> string \<Rightarrow> py_exception + string" where
  "try_stages r t =
     (case words_loop (sorted_items (words r)) (links_loop (links r) t) of
        Inl e \<Rightarrow> Inl e
      | Inr t2 \<Rightarrow> Inr (sentences_loop (sorted_items (sentences r)) t2))"

text \<open>
  Calls of \<^verbatim>\<open>logger\<close>, by level and message. \<open>ErrorApplyingReplacements e\<close> is
  \<^verbatim>\<open>logger.error(f"Error applying replacements: {e}. Original text returned.")\<close>.
\<close>

datatype log_call =
    ErrorApplyingReplacements py_exception
  | DebugForwardingDisabled
  | WarningTargetNotSet
  | DebugNotSourceChannel string
  | InfoForwarded string string

text \<open>
  \<open>apply_replacements_logged\<close> is \<^verbatim>\<open>apply_replacements\<close> with the logger calls it makes;
  \<open>apply_replacements\<close> is the value it returns.
\<close>

definition apply_replacements_logged :: "ruleset \<Rightarrow> string \<Rightarrow> string \<times> log_call list" where
  "apply_replacements_logged r t =
     (if t = [] then (t, [])
      else
        (case try_stages r t of
           Inl e \<Rightarrow> (t, [ErrorApplyingReplacements e])
         | Inr modified_text \<Rightarrow> (modified_text, [])))"

definition apply_replacements :: "ruleset \<Rightarrow> string \<Rightarrow> string" where
  "apply_replacements r t = fst (apply_replacements_logged r t)"

section \<open>Configuration, posts and the calls to the Bot API\<close>

text \<open>
  The fields of \<^verbatim>\<open>BotConfig\<close> that the forwarding path reads. \<^verbatim>\<open>source_channels\<close> is a
  Python list, so order and duplicates are kept.
\<close>

record bot_config =
  source_channels :: "string list"
  target_channel :: string
  replacements :: ruleset
  forwarding_enabled :: bool

text \<open>
  A channel post as the handlers read it. \<^verbatim>\<open>post["chat"]["id"]\<close> and
  \<^verbatim>\<open>post["message_id"]\<close> are always there; every other key may be missing, which is
  \<open>None\<close>; \<open>msg_text\<close> is the key \<^verbatim>\<open>text\<close>. \<open>photo\<close> is the list of the \<^verbatim>\<open>file_id\<close>s of the sizes of a photo in the order
  of the update; \<open>video\<close>, \<open>document\<close> and \<open>animation\<close> are the \<^verbatim>\<open>file_id\<close> of the
  media object, an object with that key being a non-empty dictionary and so true.
\<close>

record channel_post =
  message_id :: int
  chat_id :: int
  chat_username :: "string option"
  msg_text :: "string option"
  caption :: "string option"
  photo :: "string list option"
  video :: "string option"
  document :: "string option"
  animation :: "string option"

text \<open>\<^verbatim>\<open>d.get(key, "")\<close> for a string entry, and the truth value of \<^verbatim>\<open>d.get(key)\<close>.\<close>

definition get_or_empty :: "string option \<Rightarrow> string" where
  "get_or_empty x = (case x of None \<Rightarrow> [] | Some s \<Rightarrow> s)"

definition truthy :: "'a list option \<Rightarrow> bool" where
  "truthy x = (case x of None \<Rightarrow> False | Some l \<Rightarrow> l \<noteq> [])"

text \<open>
  The methods \<^verbatim>\<open>copy_message\<close>, \<^verbatim>\<open>send_message\<close>, \<^verbatim>\<open>send_photo\<close>, \<^verbatim>\<open>send_video\<close> and
  \<^verbatim>\<open>send_document\<close> with their arguments in the order of the source; the optional
  caption is \<open>None\<close> where the caller leaves it out.
\<close>

datatype api_call =
    CopyMessage string string int "string option"
  | SendMessage string string
  | SendPhoto string string "string option"
  | SendVideo string string "string option"
  | SendDocument string string "string option"

datatype effect = Log log_call | Api api_call

fun api_calls :: "effect list \<Rightarrow> api_call list" where
  "api_calls [] = []"
| "api_calls (Log l # es) = api_calls es"
| "api_calls (Api a # es) = a # api_calls es"

text \<open>
  \<^verbatim>\<open>forward_channel_message\<close>: the two calls of \<^verbatim>\<open>apply_replacements\<close> with what they
  log, then one call to the API, chosen by the first key of the post that is present
  and not empty.
\<close>

definition relay_call :: "bot_config \<Rightarrow> channel_post \<Rightarrow> string \<Rightarrow> string \<Rightarrow> api_call" where
  "relay_call cfg post new_text new_caption =
     (let from_chat_id = str_int (chat_id post);
          to_chat_id = target_channel cfg;
          original_text = get_or_empty (msg_text post);
          original_caption = get_or_empty (caption post);
          text_modified = (new_text \<noteq> original_text);
          caption_modified = (new_caption \<noteq> original_caption)
      in if truthy (photo post) then
           (if caption_modified
            then SendPhoto to_chat_id (last (the (photo post))) (Some new_caption)
            else CopyMessage from_chat_id to_chat_id (message_id post) None)
         else if video post \<noteq> None then
           (if caption_modified
            then SendVideo to_chat_id (the (video post)) (Some new_caption)
            else CopyMessage from_chat_id to_chat_id (message_id post) None)
         else if document post \<noteq> None then
           (if caption_modified
            then SendDocument to_chat_id (the (document post)) (Some new_caption)
            else CopyMessage from_chat_id to_chat_id (message_id post) None)
         else if animation post \<noteq> None then
           (if caption_modified
            then SendDocument to_chat_id (the (animation post)) (Some new_caption)
            else CopyMessage from_chat_id to_chat_id (message_id post) None)
         else if truthy (msg_text post) then
           (if text_modified
            then SendMessage to_chat_id new_text
            else CopyMessage from_chat_id to_chat_id (message_id post) None)
         else
           (if original_caption \<noteq> [] \<and> caption_modified
            then CopyMessage from_chat_id to_chat_id (message_id post) (Some new_caption)
            else CopyMessage from_chat_id to_chat_id (message_id post) None))"

definition forward_channel_message :: "bot_config \<Rightarrow> channel_post \<Rightarrow> effect list" where
  "forward_channel_message cfg post =
     (let (new_text, log_text) =
            apply_replacements_logged (replacements cfg) (get_or_empty (msg_text post));
          (new_caption, log_caption) =
            apply_replacements_logged (replacements cfg) (get_or_empty (caption post))
      in map Log log_text @ map Log log_caption @ [Api (relay_call cfg post new_text new_caption)])"

text \<open>
  The loop of \<^verbatim>\<open>handle_channel_post\<close> over \<^verbatim>\<open>source_channels\<close>, leaving at the first
  entry that matches. \<^verbatim>\<open>channel_username\<close> is \<^verbatim>\<open>post["chat"].get("username", "")\<close>.
\<close>

fun is_source_channel :: "string list \<Rightarrow> string \<Rightarrow> string \<Rightarrow> bool" where
  "is_source_channel [] channel_id channel_username = False"
| "is_source_channel (source # rest) channel_id channel_username =
     (let normalized_source = lstrip_at source
      in if channel_id = normalized_source \<or> lower channel_username = lower normalized_source
         then True
         else is_source_channel rest channel_id channel_username)"

text \<open>\<^verbatim>\<open>channel_username or channel_id\<close>, the name the log lines print.\<close>

definition channel_label :: "channel_post \<Rightarrow> string" where
  "channel_label post =
     (if get_or_empty (chat_username post) \<noteq> [] then get_or_empty (chat_username post)
      else str_int (chat_id post))"

text \<open>
  \<^verbatim>\<open>handle_channel_post\<close> returns \<^verbatim>\<open>None\<close> on every path; what it does is the list of its
  logger and API calls. The API methods catch their own failures, so with a post of the
  shape above the \<^verbatim>\<open>except\<close> branch around \<^verbatim>\<open>forward_channel_message\<close> is not entered.
\<close>

definition handle_channel_post :: "bot_config \<Rightarrow> channel_post \<Rightarrow> effect list" where
  "handle_channel_post cfg post =
     (if \<not> forwarding_enabled cfg then [Log DebugForwardingDisabled]
      else if target_channel cfg = [] then [Log WarningTargetNotSet]
      else if \<not> is_source_channel (source_channels cfg) (str_int (chat_id post))
                  (get_or_empty (chat_username post))
      then [Log (DebugNotSourceChannel (channel_label post))]
      else forward_channel_message cfg post
             @ [Log (InfoForwarded (channel_label post) (target_channel cfg))])"

text \<open>
  The value that \<^verbatim>\<open>handle_channel_post\<close> returns: the three early \<^verbatim>\<open>return\<close> statements
  and the end of the function body all give \<^verbatim>\<open>None\<close>.
\<close>

datatype py_value = PyNone | PyStr string

definition handle_channel_post_result :: "bot_config \<Rightarrow> channel_post \<Rightarrow> py_value" where
  "handle_channel_post_result cfg post =
     (if \<not> forwarding_enabled cfg then PyNone
      else if target_channel cfg = [] then PyNone
      else if \<not> is_source_channel (source_channels cfg) (str_int (chat_id post))
                  (get_or_empty (chat_username post))
      then PyNone
      else PyNone)"

text \<open>
  The level of each logger call, and the records that are written: the module sets up
  logging with \<^verbatim>\<open>logging.basicConfig(level=logging.INFO, ...)\<close>, which drops the calls of
  \<^verbatim>\<open>logger.debug\<close>.
\<close>

datatype log_level = DEBUG | INFO | WARNING | ERROR

fun level_of :: "log_call \<Rightarrow> log_level" where
  "level_of (ErrorApplyingReplacements e) = ERROR"
| "level_of DebugForwardingDisabled = DEBUG"
| "level_of WarningTargetNotSet = WARNING"
| "level_of (DebugNotSourceChannel name) = DEBUG"
| "level_of (InfoForwarded name target) = INFO"

fun written_records :: "effect list \<Rightarrow> log_call list" where
  "written_records [] = []"
| "written_records (Log l # es) =
     (if level_of l = DEBUG then written_records es else l # written_records es)"
| "written_records (Api a # es) = written_records es"

text \<open>
  \<^verbatim>\<open>cmd_add_channel\<close> on the list of sources; \<open>arg\<close> is \<^verbatim>\<open>parts[1].strip()\<close>, the text
  after the command name.
\<close>

definition cmd_add_channel :: "string \<Rightarrow> string list \<Rightarrow> string list" where
  "cmd_add_channel arg chans =
     (let channel = (case arg of [] \<Rightarrow> [] | c # cs \<Rightarrow> if c = CHR ''@'' then cs else arg)
      in if channel \<notin> set (map lstrip_at chans) then chans @ [channel] else chans)"

section \<open>Notions used to state the properties\<close>


text \<open>
  A text contains a match of a key: for a link or sentence key, the key occurs in it as
  a substring, compared exactly; for a word key, the word-bounded, case-insensitive
  pattern of the key matches at some position. \<open>no_further_match\<close> says that no key of
  the ruleset has a match in the text.
\<close>

fun occurs :: "string \<Rightarrow> string \<Rightarrow> bool" where
  "occurs old [] = (old = [])"
| "occurs old (c # cs) = (strip_prefix old (c # cs) \<noteq> None \<or> occurs old cs)"

fun word_occurs :: "string \<Rightarrow> char option \<Rightarrow> string \<Rightarrow> bool" where
  "word_occurs key prev [] = (match_at key prev [] \<noteq> None)"
| "word_occurs key prev (c # cs) =
     (match_at key prev (c # cs) \<noteq> None \<or> word_occurs key (Some c) cs)"

definition no_further_match :: "ruleset \<Rightarrow> string \<Rightarrow> bool" where
  "no_further_match r t =
     (list_all (\<lambda>p. \<not> occurs (fst p) t) (links r) \<and>
      list_all (\<lambda>p. \<not> word_occurs (fst p) None t) (words r) \<and>
      list_all (\<lambda>p. \<not> occurs (fst p) t) (sentences r))"


section \<open>Properties of the forwarding path\<close>

lemma api_calls_append: "api_calls (xs @ ys) = api_calls xs @ api_calls ys"
  by (induction xs rule: api_calls.induct) simp_all

lemma api_calls_logs: "api_calls (map Log ls) = []"
  by (induction ls) simp_all

lemma api_calls_forward:
  "api_calls (forward_channel_message cfg post) =
     [relay_call cfg post
        (apply_replacements (replacements cfg) (get_or_empty (msg_text post)))
        (apply_replacements (replacements cfg) (get_or_empty (caption post)))]"
  by (simp add: forward_channel_message_def apply_replacements_def api_calls_append
        api_calls_logs split: prod.splits)

lemma api_calls_handle_forwarding:
  assumes "forwarding_enabled cfg" and "target_channel cfg \<noteq> []"
    and "is_source_channel (source_channels cfg) (str_int (chat_id post))
           (get_or_empty (chat_username post))"
  shows "api_calls (handle_channel_post cfg post) =
     [relay_call cfg post
        (apply_replacements (replacements cfg) (get_or_empty (msg_text post)))
        (apply_replacements (replacements cfg) (get_or_empty (caption post)))]"
  using assms by (simp add: handle_channel_post_def api_calls_append api_calls_forward)

text \<open>
  C1. When a stage of \<^verbatim>\<open>apply_replacements\<close> raises, the call returns the text it was
  given, unchanged, and logs the exception once; it does not return what the stages
  before the fault had produced, and it has a result for every text and every ruleset.
\<close>

theorem apply_replacements_fault_returns_original:
  "try_stages r t = Inl e \<longrightarrow>
     apply_replacements r t = t \<and>
     (t \<noteq> [] \<longrightarrow> apply_replacements_logged r t = (t, [ErrorApplyingReplacements e]))"
  by (simp add: apply_replacements_def apply_replacements_logged_def)

theorem apply_replacements_fault_returns_original_witness:
  "try_stages \<lparr>links = [(''a'', ''b'')], words = [(''c'', [backslash])], sentences = []\<rparr> ''a c''
     = Inl TemplateError \<and>
   links_loop [(''a'', ''b'')] ''a c'' = ''b c'' \<and>
   apply_replacements
     \<lparr>links = [(''a'', ''b'')], words = [(''c'', [backslash])], sentences = []\<rparr> ''a c''
     = ''a c''"
  using apply_replacements_fault_returns_original
    [of "\<lparr>links = [(''a'', ''b'')], words = [(''c'', [backslash])], sentences = []\<rparr>"
        "''a c''" TemplateError]
  by code_simp

lemma is_source_channel_iff:
  "is_source_channel srcs cid u \<longleftrightarrow>
     (\<exists>s \<in> set srcs. cid = lstrip_at s \<or> lower u = lower (lstrip_at s))"
  by (induction srcs) (auto simp: Let_def)

lemma lstrip_at_only_ats: "set entry \<subseteq> {CHR ''@''} \<Longrightarrow> lstrip_at entry = []"
  by (auto simp: lstrip_at_def)

lemma lstrip_at_not_at: "lstrip_at s \<noteq> ''@''"
proof
  assume "lstrip_at s = ''@''"
  then have "dropWhile (\<lambda>c. c = CHR ''@'') s = CHR ''@'' # []"
    by (simp add: lstrip_at_def)
  then have "\<not> (CHR ''@'' = CHR ''@'')"
    by (rule dropWhile_eq_Cons_conv [THEN iffD1, THEN conjunct2])
  then show False by simp
qed

lemma str_int_example: "str_int (-100123) = ''-100123''"
  by (simp add: str_int_def decimal.simps char_of_def bit_0)

lemma newsch_is_source: "is_source_channel [''@NewsCh''] ''-100123'' ''newsch''"
  by (simp add: lstrip_at_def lower_def lower_char_def char_of_def bit_0)

lemma car_bus_example:
  "apply_replacements \<lparr>links = [], words = [(''car'', ''bus'')], sentences = []\<rparr> ''my car''
     = ''my bus''"
  by code_simp

text \<open>
  C4. \<^verbatim>\<open>handle_channel_post\<close> tests, in this order, that forwarding is enabled, that a
  target is set and that the channel of the post is a source. At the first test that
  fails it makes one logger call and returns: no API call is made, nothing is raised,
  and with forwarding disabled this holds for every post and every ruleset. The reason
  is not returned: the handler returns \<^verbatim>\<open>None\<close> on every path, also when the post is
  relayed, and the calls for a disabled forwarder and for a channel that is no source
  are \<^verbatim>\<open>logger.debug\<close> calls, which the logging level of the module does not write. A
  post that passes the three tests makes exactly one API call.
\<close>

theorem handle_channel_post_suppression:
  "(\<not> forwarding_enabled cfg \<longrightarrow>
      handle_channel_post cfg post = [Log DebugForwardingDisabled]) \<and>
   (forwarding_enabled cfg \<and> target_channel cfg = [] \<longrightarrow>
      handle_channel_post cfg post = [Log WarningTargetNotSet]) \<and>
   (forwarding_enabled cfg \<and> target_channel cfg \<noteq> [] \<and>
    \<not> is_source_channel (source_channels cfg) (str_int (chat_id post))
        (get_or_empty (chat_username post)) \<longrightarrow>
      handle_channel_post cfg post = [Log (DebugNotSourceChannel (channel_label post))]) \<and>
   (\<not> forwarding_enabled cfg \<or> target_channel cfg = [] \<or>
    \<not> is_source_channel (source_channels cfg) (str_int (chat_id post))
        (get_or_empty (chat_username post)) \<longrightarrow>
      api_calls (handle_channel_post cfg post) = []) \<and>
   (forwarding_enabled cfg \<and> target_channel cfg \<noteq> [] \<and>
    is_source_channel (source_channels cfg) (str_int (chat_id post))
        (get_or_empty (chat_username post)) \<longrightarrow>
      length (api_calls (handle_channel_post cfg post)) = 1) \<and>
   handle_channel_post_result cfg post = PyNone \<and>
   (\<not> forwarding_enabled cfg \<or>
    (target_channel cfg \<noteq> [] \<and>
     \<not> is_source_channel (source_channels cfg) (str_int (chat_id post))
         (get_or_empty (chat_username post))) \<longrightarrow>
      written_records (handle_channel_post cfg post) = [])"
proof -
  have pass: "forwarding_enabled cfg \<and> target_channel cfg \<noteq> [] \<and>
      is_source_channel (source_channels cfg) (str_int (chat_id post))
        (get_or_empty (chat_username post)) \<longrightarrow>
      length (api_calls (handle_channel_post cfg post)) = 1"
    by (simp add: api_calls_handle_forwarding)
  have stop: "\<not> forwarding_enabled cfg \<or> target_channel cfg = [] \<or>
      \<not> is_source_channel (source_channels cfg) (str_int (chat_id post))
        (get_or_empty (chat_username post)) \<longrightarrow>
      api_calls (handle_channel_post cfg post) = []"
    by (simp add: handle_channel_post_def)
  have none: "handle_channel_post_result cfg post = PyNone"
    by (simp add: handle_channel_post_result_def)
  have quiet: "\<not> forwarding_enabled cfg \<or>
    (target_channel cfg \<noteq> [] \<and>
     \<not> is_source_channel (source_channels cfg) (str_int (chat_id post))
         (get_or_empty (chat_username post))) \<longrightarrow>
      written_records (handle_channel_post cfg post) = []"
    by (auto simp: handle_channel_post_def)
  show ?thesis
    using pass stop none quiet by (simp add: handle_channel_post_def)
qed

theorem handle_channel_post_suppression_witness:
  "handle_channel_post
      \<lparr>source_channels = [''@NewsCh''], target_channel = ''@target'',
         replacements = \<lparr>links = [], words = [(''car'', ''bus'')], sentences = []\<rparr>,
         forwarding_enabled = False\<rparr>
      \<lparr>message_id = 7, chat_id = -100123, chat_username = Some ''newsch'',
         msg_text = None, caption = Some ''my car'', photo = Some [''small'', ''large''],
         video = None, document = None, animation = None\<rparr>
     = [Log DebugForwardingDisabled] \<and>
   handle_channel_post
      \<lparr>source_channels = [''@NewsCh''], target_channel = [],
         replacements = \<lparr>links = [], words = [(''car'', ''bus'')], sentences = []\<rparr>,
         forwarding_enabled = True\<rparr>
      \<lparr>message_id = 7, chat_id = -100123, chat_username = Some ''newsch'',
         msg_text = None, caption = Some ''my car'', photo = Some [''small'', ''large''],
         video = None, document = None, animation = None\<rparr>
     = [Log WarningTargetNotSet] \<and>
   handle_channel_post
      \<lparr>source_channels = [''other''], target_channel = ''@target'',
         replacements = \<lparr>links = [], words = [(''car'', ''bus'')], sentences = []\<rparr>,
         forwarding_enabled = True\<rparr>
      \<lparr>message_id = 7, chat_id = -100123, chat_username = Some ''newsch'',
         msg_text = None, caption = Some ''my car'', photo = Some [''small'', ''large''],
         video = None, document = None, animation = None\<rparr>
     = [Log (DebugNotSourceChannel ''newsch'')]"
proof -
  have not_src: "\<not> is_source_channel [''other''] ''-100123'' ''newsch''"
    by (simp add: lstrip_at_def lower_def lower_char_def char_of_def bit_0)
  show ?thesis
    using handle_channel_post_suppression
      [of "\<lparr>source_channels = [''@NewsCh''], target_channel = ''@target'',
         replacements = \<lparr>links = [], words = [(''car'', ''bus'')], sentences = []\<rparr>,
         forwarding_enabled = False\<rparr>"
          "\<lparr>message_id = 7, chat_id = -100123, chat_username = Some ''newsch'',
         msg_text = None, caption = Some ''my car'', photo = Some [''small'', ''large''],
         video = None, document = None, animation = None\<rparr>"]
      handle_channel_post_suppression
      [of "\<lparr>source_channels = [''@NewsCh''], target_channel = [],
         replacements = \<lparr>links = [], words = [(''car'', ''bus'')], sentences = []\<rparr>,
         forwarding_enabled = True\<rparr>"
          "\<lparr>message_id = 7, chat_id = -100123, chat_username = Some ''newsch'',
         msg_text = None, caption = Some ''my car'', photo = Some [''small'', ''large''],
         video = None, document = None, animation = None\<rparr>"]
      handle_channel_post_suppression
      [of "\<lparr>source_channels = [''other''], target_channel = ''@target'',
         replacements = \<lparr>links = [], words = [(''car'', ''bus'')], sentences = []\<rparr>,
         forwarding_enabled = True\<rparr>"
          "\<lparr>message_id = 7, chat_id = -100123, chat_username = Some ''newsch'',
         msg_text = None, caption = Some ''my car'', photo = Some [''small'', ''large''],
         video = None, document = None, animation = None\<rparr>"]
      not_src
    by (simp add: get_or_empty_def channel_label_def str_int_example)
qed

text \<open>
  The value returned is \<^verbatim>\<open>None\<close> for each of the three reasons and for a relayed post
  alike, and the records written for a disabled forwarder and for a channel that is no
  source are the same (none): the handler has no tagged result and no reason code.
\<close>

theorem handle_channel_post_returns_no_reason:
  "handle_channel_post_result
      \<lparr>source_channels = [''@NewsCh''], target_channel = ''@target'',
         replacements = \<lparr>links = [], words = [(''car'', ''bus'')], sentences = []\<rparr>,
         forwarding_enabled = False\<rparr>
      \<lparr>message_id = 7, chat_id = -100123, chat_username = Some ''newsch'',
         msg_text = None, caption = Some ''my car'', photo = Some [''small'', ''large''],
         video = None, document = None, animation = None\<rparr>
     = PyNone \<and>
   handle_channel_post_result
      \<lparr>source_channels = [''@NewsCh''], target_channel = [],
         replacements = \<lparr>links = [], words = [(''car'', ''bus'')], sentences = []\<rparr>,
         forwarding_enabled = True\<rparr>
      \<lparr>message_id = 7, chat_id = -100123, chat_username = Some ''newsch'',
         msg_text = None, caption = Some ''my car'', photo = Some [''small'', ''large''],
         video = None, document = None, animation = None\<rparr>
     = PyNone \<and>
   handle_channel_post_result
      \<lparr>source_channels = [''other''], target_channel = ''@target'',
         replacements = \<lparr>links = [], words = [(''car'', ''bus'')], sentences = []\<rparr>,
         forwarding_enabled = True\<rparr>
      \<lparr>message_id = 7, chat_id = -100123, chat_username = Some ''newsch'',
         msg_text = None, caption = Some ''my car'', photo = Some [''small'', ''large''],
         video = None, document = None, animation = None\<rparr>
     = PyNone \<and>
   handle_channel_post_result
      \<lparr>source_channels = [''@NewsCh''], target_channel = ''@target'',
         replacements = \<lparr>links = [], words = [(''car'', ''bus'')], sentences = []\<rparr>,
         forwarding_enabled = True\<rparr>
      \<lparr>message_id = 7, chat_id = -100123, chat_username = Some ''newsch'',
         msg_text = None, caption = Some ''my car'', photo = Some [''small'', ''large''],
         video = None, document = None, animation = None\<rparr>
     = PyNone \<and>
   api_calls (handle_channel_post
      \<lparr>source_channels = [''@NewsCh''], target_channel = ''@target'',
         replacements = \<lparr>links = [], words = [(''car'', ''bus'')], sentences = []\<rparr>,
         forwarding_enabled = True\<rparr>
      \<lparr>message_id = 7, chat_id = -100123, chat_username = Some ''newsch'',
         msg_text = None, caption = Some ''my car'', photo = Some [''small'', ''large''],
         video = None, document = None, animation = None\<rparr>)
     = [SendPhoto ''@target'' ''large'' (Some ''my bus'')] \<and>
   written_records (handle_channel_post
      \<lparr>source_channels = [''@NewsCh''], target_channel = ''@target'',
         replacements = \<lparr>links = [], words = [(''car'', ''bus'')], sentences = []\<rparr>,
         forwarding_enabled = False\<rparr>
      \<lparr>message_id = 7, chat_id = -100123, chat_username = Some ''newsch'',
         msg_text = None, caption = Some ''my car'', photo = Some [''small'', ''large''],
         video = None, document = None, animation = None\<rparr>)
     = [] \<and>
   written_records (handle_channel_post
      \<lparr>source_channels = [''other''], target_channel = ''@target'',
         replacements = \<lparr>links = [], words = [(''car'', ''bus'')], sentences = []\<rparr>,
         forwarding_enabled = True\<rparr>
      \<lparr>message_id = 7, chat_id = -100123, chat_username = Some ''newsch'',
         msg_text = None, caption = Some ''my car'', photo = Some [''small'', ''large''],
         video = None, document = None, animation = None\<rparr>)
     = []"
proof -
  have not_src: "\<not> is_source_channel [''other''] ''-100123'' ''newsch''"
    by (simp add: lstrip_at_def lower_def lower_char_def char_of_def bit_0)
  have relayed: "api_calls (handle_channel_post
      \<lparr>source_channels = [''@NewsCh''], target_channel = ''@target'',
         replacements = \<lparr>links = [], words = [(''car'', ''bus'')], sentences = []\<rparr>,
         forwarding_enabled = True\<rparr>
      \<lparr>message_id = 7, chat_id = -100123, chat_username = Some ''newsch'',
         msg_text = None, caption = Some ''my car'', photo = Some [''small'', ''large''],
         video = None, document = None, animation = None\<rparr>)
     = [SendPhoto ''@target'' ''large'' (Some ''my bus'')]"
    using newsch_is_source car_bus_example
    by (simp add: api_calls_handle_forwarding relay_call_def truthy_def Let_def
          get_or_empty_def str_int_example)
  show ?thesis
    using not_src relayed
    by (simp add: handle_channel_post_result_def handle_channel_post_def get_or_empty_def
          str_int_example)
qed

text \<open>
  C6. For a post with a photo that passes the three tests, the one API call is
  \<^verbatim>\<open>send_photo\<close> with the \<^verbatim>\<open>file_id\<close> of the last size of the photo and the rewritten
  caption when the replacements changed the caption, and \<^verbatim>\<open>copy_message\<close> of the
  original message without a caption argument when they did not.
\<close>

theorem photo_post_directive:
  assumes "forwarding_enabled cfg" and "target_channel cfg \<noteq> []"
    and "is_source_channel (source_channels cfg) (str_int (chat_id post))
           (get_or_empty (chat_username post))"
    and "photo post = Some sizes" and "sizes \<noteq> []"
  shows "api_calls (handle_channel_post cfg post) =
     [if apply_replacements (replacements cfg) (get_or_empty (caption post))
           \<noteq> get_or_empty (caption post)
      then SendPhoto (target_channel cfg) (last sizes)
             (Some (apply_replacements (replacements cfg) (get_or_empty (caption post))))
      else CopyMessage (str_int (chat_id post)) (target_channel cfg) (message_id post) None]"
  using assms by (simp add: api_calls_handle_forwarding relay_call_def truthy_def Let_def)

theorem photo_post_directive_witness:
  "api_calls (handle_channel_post
      \<lparr>source_channels = [''@NewsCh''], target_channel = ''@target'',
         replacements = \<lparr>links = [], words = [(''car'', ''bus'')], sentences = []\<rparr>,
         forwarding_enabled = True\<rparr>
      \<lparr>message_id = 7, chat_id = -100123, chat_username = Some ''newsch'',
         msg_text = None, caption = Some ''my car'', photo = Some [''small'', ''large''],
         video = None, document = None, animation = None\<rparr>)
   = [SendPhoto ''@target'' ''large'' (Some ''my bus'')]"
  using photo_post_directive
      [of "\<lparr>source_channels = [''@NewsCh''], target_channel = ''@target'',
         replacements = \<lparr>links = [], words = [(''car'', ''bus'')], sentences = []\<rparr>,
         forwarding_enabled = True\<rparr>"
          "\<lparr>message_id = 7, chat_id = -100123, chat_username = Some ''newsch'',
         msg_text = None, caption = Some ''my car'', photo = Some [''small'', ''large''],
         video = None, document = None, animation = None\<rparr>"
          "[''small'', ''large'']"]
      newsch_is_source car_bus_example
  by (simp add: get_or_empty_def str_int_example)

text \<open>
  C7. For a post that passes the three tests and has no photo, video, document or
  animation and no text (absent or empty), the one API call is \<^verbatim>\<open>copy_message\<close> of the
  original message: with the rewritten caption as its caption argument when the post
  has a caption and the replacements changed it, and without a caption argument in
  every other case.
\<close>

theorem other_post_directive:
  assumes "forwarding_enabled cfg" and "target_channel cfg \<noteq> []"
    and "is_source_channel (source_channels cfg) (str_int (chat_id post))
           (get_or_empty (chat_username post))"
    and "\<not> truthy (photo post)" and "video post = None" and "document post = None"
    and "animation post = None" and "\<not> truthy (msg_text post)"
  shows "api_calls (handle_channel_post cfg post) =
     [CopyMessage (str_int (chat_id post)) (target_channel cfg) (message_id post)
        (if get_or_empty (caption post) \<noteq> [] \<and>
            apply_replacements (replacements cfg) (get_or_empty (caption post))
              \<noteq> get_or_empty (caption post)
         then Some (apply_replacements (replacements cfg) (get_or_empty (caption post)))
         else None)]"
  using assms by (simp add: api_calls_handle_forwarding relay_call_def Let_def)

theorem other_post_directive_witness:
  "api_calls (handle_channel_post
      \<lparr>source_channels = [''@NewsCh''], target_channel = ''@target'',
         replacements = \<lparr>links = [], words = [(''car'', ''bus'')], sentences = []\<rparr>,
         forwarding_enabled = True\<rparr>
      \<lparr>message_id = 8, chat_id = -100123, chat_username = Some ''newsch'',
         msg_text = None, caption = Some ''my car'', photo = None,
         video = None, document = None, animation = None\<rparr>)
   = [CopyMessage ''-100123'' ''@target'' 8 (Some ''my bus'')]"
  using other_post_directive
      [of "\<lparr>source_channels = [''@NewsCh''], target_channel = ''@target'',
         replacements = \<lparr>links = [], words = [(''car'', ''bus'')], sentences = []\<rparr>,
         forwarding_enabled = True\<rparr>"
          "\<lparr>message_id = 8, chat_id = -100123, chat_username = Some ''newsch'',
         msg_text = None, caption = Some ''my car'', photo = None,
         video = None, document = None, animation = None\<rparr>"]
      newsch_is_source car_bus_example
  by (simp add: get_or_empty_def truthy_def str_int_example)

text \<open>
  C9. A source entry made only of at-signs is empty after \<^verbatim>\<open>lstrip('@')\<close>, and a post
  whose chat has no \<^verbatim>\<open>username\<close> is compared with it as the empty string, so every such
  post matches, whatever its chat id. \<^verbatim>\<open>/add_channel @@\<close> stores the entry \<^verbatim>\<open>@\<close> in any
  list of sources.
\<close>

theorem at_sign_entry_matches_handleless_posts:
  assumes "entry \<in> set (source_channels cfg)" and "set entry \<subseteq> {CHR ''@''}"
    and "chat_username post = None"
  shows "lstrip_at entry = [] \<and>
         is_source_channel (source_channels cfg) (str_int (chat_id post))
           (get_or_empty (chat_username post)) \<and>
         cmd_add_channel ''@@'' chans = chans @ [''@'']"
proof -
  have e: "lstrip_at entry = []"
    using assms(2) by (rule lstrip_at_only_ats)
  have "lower (get_or_empty (chat_username post)) = lower (lstrip_at entry)"
    using assms(3) e by (simp add: get_or_empty_def lower_def)
  with assms(1) have m: "is_source_channel (source_channels cfg) (str_int (chat_id post))
           (get_or_empty (chat_username post))"
    unfolding is_source_channel_iff by blast
  have "''@'' \<notin> set (map lstrip_at chans)"
  proof
    assume "''@'' \<in> set (map lstrip_at chans)"
    then obtain x where "lstrip_at x = ''@''"
      by auto
    with lstrip_at_not_at show False
      by blast
  qed
  then have "cmd_add_channel ''@@'' chans = chans @ [''@'']"
    by (simp add: cmd_add_channel_def)
  with e m show ?thesis by simp
qed

theorem at_sign_entry_matches_handleless_posts_witness:
  "cmd_add_channel ''@@'' [''news''] = [''news'', ''@''] \<and>
   is_source_channel [''news'', ''@''] (str_int (-100123)) (get_or_empty None)"
  using at_sign_entry_matches_handleless_posts
      [of "''@''"
          "\<lparr>source_channels = [''news'', ''@''], target_channel = ''@target'',
         replacements = \<lparr>links = [], words = [(''car'', ''bus'')], sentences = []\<rparr>,
         forwarding_enabled = True\<rparr>"
          "\<lparr>message_id = 9, chat_id = -100123, chat_username = None,
         msg_text = Some ''hello'', caption = None, photo = None,
         video = None, document = None, animation = None\<rparr>"
          "[''news'']"]
  by simp

text \<open>
  C5. The matcher compares the chat id of the post with each entry stripped of its
  leading at-signs, and the username of the post with it in lower case. A post whose
  chat has no username should fail the username comparison; the code reads the missing
  username as the empty string, so against an entry that is empty once stripped the
  comparison succeeds. \<^verbatim>\<open>/add_channel @\<close> stores such an entry, and then a post from a
  channel without a username whose id is not configured is matched and relayed.
\<close>

theorem empty_entry_matches_post_without_handle:
  "cmd_add_channel ''@'' [] = [[]] \<and>
   is_source_channel [[]] (str_int (-100123)) (get_or_empty None) \<and>
   \<not> is_source_channel [''@NewsCh''] (str_int (-100123)) (get_or_empty None) \<and>
   is_source_channel [''@NewsCh''] (str_int (-100123)) (get_or_empty (Some ''newsch'')) \<and>
   api_calls (handle_channel_post
      \<lparr>source_channels = [[]], target_channel = ''@target'',
         replacements = \<lparr>links = [], words = [(''car'', ''bus'')], sentences = []\<rparr>,
         forwarding_enabled = True\<rparr>
      \<lparr>message_id = 9, chat_id = -100123, chat_username = None,
         msg_text = Some ''hello'', caption = None, photo = None,
         video = None, document = None, animation = None\<rparr>)
     = [CopyMessage ''-100123'' ''@target'' 9 None]"
proof -
  have added: "cmd_add_channel ''@'' [] = [[]]"
    by (simp add: cmd_add_channel_def)
  have hit: "is_source_channel [[]] ''-100123'' []"
    by (simp add: lstrip_at_def lower_def)
  have miss: "\<not> is_source_channel [''@NewsCh''] ''-100123'' []"
    by (simp add: lstrip_at_def lower_def)
  have hello: "apply_replacements
      \<lparr>links = [], words = [(''car'', ''bus'')], sentences = []\<rparr> ''hello'' = ''hello''"
    by code_simp
  have relayed: "api_calls (handle_channel_post
      \<lparr>source_channels = [[]], target_channel = ''@target'',
         replacements = \<lparr>links = [], words = [(''car'', ''bus'')], sentences = []\<rparr>,
         forwarding_enabled = True\<rparr>
      \<lparr>message_id = 9, chat_id = -100123, chat_username = None,
         msg_text = Some ''hello'', caption = None, photo = None,
         video = None, document = None, animation = None\<rparr>)
     = [CopyMessage ''-100123'' ''@target'' 9 None]"
    using hit hello
    by (simp add: api_calls_handle_forwarding relay_call_def truthy_def Let_def
          get_or_empty_def str_int_example)
  show ?thesis
    using added hit miss newsch_is_source relayed
    by (simp add: get_or_empty_def str_int_example)
qed

section \<open>Properties of the replacement engine\<close>

lemma replace_scan_no_occurrence:
  "\<not> occurs (a # as) t \<Longrightarrow> replace_scan a as new t = t"
  by (induction t) (auto split: option.splits)

lemma str_replace_no_occurrence: "\<not> occurs old t \<Longrightarrow> str_replace old new t = t"
proof (cases old)
  case Nil
  assume "\<not> occurs old t"
  with Nil show ?thesis
    by (cases t) simp_all
next
  case (Cons a as)
  assume "\<not> occurs old t"
  with Cons show ?thesis
    by (simp add: str_replace_def replace_scan_no_occurrence)
qed

lemma links_loop_no_occurrence:
  "list_all (\<lambda>p. \<not> occurs (fst p) t) ps \<Longrightarrow> links_loop ps t = t"
  by (induction ps) (auto simp: str_replace_no_occurrence)

lemma sentences_loop_no_occurrence:
  "list_all (\<lambda>p. \<not> occurs (fst p) t) ps \<Longrightarrow> sentences_loop ps t = t"
  by (induction ps) (auto simp: str_replace_no_occurrence)

lemma re_sub_scan_no_match:
  "\<not> word_occurs key prev t \<Longrightarrow> re_sub_scan key tpl prev t = t"
proof (induction t arbitrary: prev)
  case Nil
  then have "match_at key prev [] = None"
    by (cases "match_at key prev []") simp_all
  then show ?case by simp
next
  case (Cons c cs)
  then have none: "match_at key prev (c # cs) = None" and rest: "\<not> word_occurs key (Some c) cs"
    by (cases "match_at key prev (c # cs)"; simp)+
  from rest have "re_sub_scan key tpl (Some c) cs = cs"
    by (rule Cons.IH)
  with none show ?case by simp
qed

lemma words_loop_no_match:
  "list_all (\<lambda>p. \<not> word_occurs (fst p) None t) ps \<Longrightarrow>
     words_loop ps t = Inr t \<or> words_loop ps t = Inl TemplateError"
proof (induction ps)
  case Nil
  then show ?case by simp
next
  case (Cons p ps)
  obtain old new where p: "p = (old, new)"
    by (cases p)
  show ?case
  proof (cases "parse_template new")
    case (Inl e)
    with p show ?thesis
      by (cases e) (simp add: re_sub_def)
  next
    case (Inr tpl)
    with p Cons show ?thesis
      by (simp add: re_sub_def re_sub_scan_no_match)
  qed
qed

lemma list_all_sorted_items: "list_all P (sorted_items d) = list_all P d"
  by (simp add: sorted_items_def list_all_iff)

lemma apply_replacements_no_match:
  assumes "no_further_match r u"
  shows "apply_replacements r u = u"
proof -
  from assms have l: "links_loop (links r) u = u"
    by (simp add: no_further_match_def links_loop_no_occurrence)
  from assms have s: "sentences_loop (sorted_items (sentences r)) u = u"
    by (simp add: no_further_match_def sentences_loop_no_occurrence list_all_sorted_items)
  from assms have "list_all (\<lambda>p. \<not> word_occurs (fst p) None u) (sorted_items (words r))"
    by (simp add: no_further_match_def list_all_sorted_items)
  then have "words_loop (sorted_items (words r)) u = Inr u \<or>
             words_loop (sorted_items (words r)) u = Inl TemplateError"
    by (rule words_loop_no_match)
  with l s show ?thesis
    by (auto simp: apply_replacements_def apply_replacements_logged_def try_stages_def)
qed

text \<open>
  C8. When the text that \<^verbatim>\<open>apply_replacements\<close> returns contains no match of any key of
  the ruleset, applying the ruleset to it again returns it unchanged.
\<close>

theorem apply_replacements_idempotent:
  "no_further_match r (apply_replacements r t) \<Longrightarrow>
     apply_replacements r (apply_replacements r t) = apply_replacements r t"
  by (rule apply_replacements_no_match)

theorem apply_replacements_idempotent_witness:
  "no_further_match \<lparr>links = [(''old.com'', ''new.com'')], words = [(''car'', ''bus'')],
        sentences = [(''Good Morning'', ''Hi'')]\<rparr>
     ''Hi, my bus is at new.com'' \<and>
   apply_replacements \<lparr>links = [(''old.com'', ''new.com'')], words = [(''car'', ''bus'')],
        sentences = [(''Good Morning'', ''Hi'')]\<rparr>
     ''Good Morning, my Car is at old.com'' = ''Hi, my bus is at new.com'' \<and>
   apply_replacements \<lparr>links = [(''old.com'', ''new.com'')], words = [(''car'', ''bus'')],
        sentences = [(''Good Morning'', ''Hi'')]\<rparr>
     ''Hi, my bus is at new.com'' = ''Hi, my bus is at new.com''"
proof -
  have once: "apply_replacements \<lparr>links = [(''old.com'', ''new.com'')], words = [(''car'', ''bus'')],
        sentences = [(''Good Morning'', ''Hi'')]\<rparr>
     ''Good Morning, my Car is at old.com'' = ''Hi, my bus is at new.com''"
    by code_simp
  have quiet: "no_further_match \<lparr>links = [(''old.com'', ''new.com'')], words = [(''car'', ''bus'')],
        sentences = [(''Good Morning'', ''Hi'')]\<rparr>
     ''Hi, my bus is at new.com''"
    by code_simp
  show ?thesis
    using apply_replacements_idempotent
      [of "\<lparr>links = [(''old.com'', ''new.com'')], words = [(''car'', ''bus'')],
             sentences = [(''Good Morning'', ''Hi'')]\<rparr>"
          "''Good Morning, my Car is at old.com''"]
      once quiet
    by simp
qed
























text \<open>
  C3. A word pair replaces the whole-word, case-insensitive occurrences of its key.
  The replacement value, however, is not put into the text as it is: \<^verbatim>\<open>re.sub\<close> takes
  it as a template. With the value \<^verbatim>\<open>C:\new\<close> the backslash and the \<^verbatim>\<open>n\<close> become a line
  feed, and with the value \<^verbatim>\<open>C:\users\<close> the template is rejected, so that the whole call
  returns the text unchanged and the link rule is lost as well. \<^verbatim>\<open>str.replace\<close>, which
  the links and sentences stages use, does insert the same value as it is.
\<close>

theorem word_value_is_read_as_template:
  "apply_replacements
     \<lparr>links = [], words = [(''folder'', ''C:'' @ [backslash] @ ''new'')], sentences = []\<rparr>
     ''open folder'' = ''open C:'' @ [CHR 0x0A] @ ''ew'' \<and>
   str_replace ''folder'' (''C:'' @ [backslash] @ ''new'') ''open folder''
     = ''open C:'' @ [backslash] @ ''new'' \<and>
   apply_replacements
     \<lparr>links = [(''old.com'', ''new.com'')],
        words = [(''folder'', ''C:'' @ [backslash] @ ''users'')], sentences = []\<rparr>
     ''folder at old.com'' = ''folder at old.com'' \<and>
   apply_replacements \<lparr>links = [], words = [(''car'', ''bus'')], sentences = []\<rparr>
     ''The CARPET is red'' = ''The CARPET is red''"
  by code_simp

end
